theory Spec2Isabelle
  imports Main
begin

section \<open>JavaScript values\<close>

text \<open>
  The accessors of \<^verbatim>\<open>attributes.mixin.js\<close> handle untyped JavaScript values: they
  test them for truthiness (\<^verbatim>\<open>||\<close>, \<^verbatim>\<open>Boolean(v)\<close>, \<^verbatim>\<open>if (v)\<close>), compare them with
  \<^verbatim>\<open>undefined\<close>, convert them to strings (\<^verbatim>\<open>setAttribute\<close>) and parse them
  (\<^verbatim>\<open>parseFloat\<close>). The primitive values are modelled; objects, functions and symbols as
  property values are outside the model.

  A number is \<^verbatim>\<open>NaN\<close>, an infinity, or a finite number written as a decimal: \<open>Dec m k\<close> is
  written \<open>m / 10 ^ k\<close>; zero is \<open>Dec 0 k\<close>, and \<^verbatim>\<open>-0\<close> is identified with \<^verbatim>\<open>0\<close> (both are
  falsy and both print as \<^verbatim>\<open>"0"\<close>). Strings are sequences of bytes (UTF-8).
\<close>

datatype jsnum = NaN | PosInf | NegInf | Dec int nat

datatype jsval = Undefined | Null | JBool bool | JNum jsnum | JStr string

fun truthy_num :: "jsnum \<Rightarrow> bool" where
  "truthy_num NaN = False"
| "truthy_num PosInf = True"
| "truthy_num NegInf = True"
| "truthy_num (Dec m k) = (m \<noteq> 0)"

text \<open>ToBoolean: \<^verbatim>\<open>undefined\<close>, \<^verbatim>\<open>null\<close>, \<^verbatim>\<open>false\<close>, \<^verbatim>\<open>0\<close>, \<^verbatim>\<open>NaN\<close> and \<^verbatim>\<open>''\<close> are falsy.\<close>

fun truthy :: "jsval \<Rightarrow> bool" where
  "truthy Undefined = False"
| "truthy Null = False"
| "truthy (JBool b) = b"
| "truthy (JNum n) = truthy_num n"
| "truthy (JStr s) = (s \<noteq> [])"

text \<open>The operator \<^verbatim>\<open>a || b\<close> on values that are already evaluated.\<close>

definition js_or :: "jsval \<Rightarrow> jsval \<Rightarrow> jsval" where
  "js_or a b = (if truthy a then a else b)"

section \<open>The host\<close>

text \<open>
  What the source takes from its environment and does not define: the built-in
  \<^verbatim>\<open>parseFloat\<close> (given here on strings; \<^verbatim>\<open>parseFloat(v)\<close> first converts \<open>v\<close> to a string),
  the conversion of a number to a string, and two rules of the element's attribute methods:
  which names \<^verbatim>\<open>setAttribute\<close> accepts (it raises an InvalidCharacterError for the others),
  and how the attribute methods normalise a name before they use it (an HTML element in an
  HTML document lowercases it). The accessors are modelled for any host; a statement that
  holds for every \<open>h\<close> holds whatever these four do.
\<close>

record host =
  parse_float :: "string \<Rightarrow> jsnum"
  number_to_string :: "jsnum \<Rightarrow> string"
  valid_name :: "string \<Rightarrow> bool"
  normal_name :: "string \<Rightarrow> string"

text \<open>ToString on primitive values, as \<^verbatim>\<open>setAttribute\<close> and \<^verbatim>\<open>parseFloat\<close> apply it.\<close>

fun to_string :: "host \<Rightarrow> jsval \<Rightarrow> string" where
  "to_string h Undefined = ''undefined''"
| "to_string h Null = ''null''"
| "to_string h (JBool b) = (if b then ''true'' else ''false'')"
| "to_string h (JNum n) = number_to_string h n"
| "to_string h (JStr s) = s"

text \<open>\<^verbatim>\<open>parseFloat(v, 10)\<close>: the second argument is ignored.\<close>

definition parseFloat :: "host \<Rightarrow> jsval \<Rightarrow> jsnum" where
  "parseFloat h v = parse_float h (to_string h v)"

section \<open>One host, for the examples\<close>

text \<open>
  A concrete host, on which the examples below are evaluated. Its \<^verbatim>\<open>parseFloat\<close> and
  number-to-string follow ECMAScript with one idealisation: a decimal is kept as it is
  written and is not rounded to the nearest IEEE double, so it agrees with the built-in
  functions on decimals that doubles tell apart (up to 15 significant digits, within the
  range of normal doubles) and not beyond (no overflow to \<^verbatim>\<open>Infinity\<close>, no underflow to 0).
\<close>

subsection \<open>Number to string\<close>

definition digit_char :: "nat \<Rightarrow> char" where
  "digit_char d = ''0123456789'' ! (d mod 10)"

fun digits_of :: "nat \<Rightarrow> string" where
  "digits_of n = (if n < 10 then [digit_char n] else digits_of (n div 10) @ [digit_char (n mod 10)])"

declare digits_of.simps [simp del]

text \<open>
  Number::toString. With \<open>sd\<close> the significant digits (no trailing zeros), \<open>k\<close> their number
  and \<open>n\<close> the position of the decimal point after the first digit of \<open>sd\<close>: positional
  notation when \<open>- 6 < n \<le> 21\<close>, exponent notation otherwise.
\<close>

definition positive_to_string :: "nat \<Rightarrow> nat \<Rightarrow> string" where
  "positive_to_string a k' =
     (let ds = digits_of a;
          z = length (takeWhile (\<lambda>c. c = CHR ''0'') (rev ds));
          sd = take (length ds - z) ds;
          k = int (length sd);
          n = int (length ds) - int k'
      in if k \<le> n \<and> n \<le> 21 then sd @ replicate (nat (n - k)) CHR ''0''
         else if 0 < n \<and> n \<le> 21 then take (nat n) sd @ ''.'' @ drop (nat n) sd
         else if - 6 < n \<and> n \<le> 0 then ''0.'' @ replicate (nat (- n)) CHR ''0'' @ sd
         else (if k = 1 then sd else take 1 sd @ ''.'' @ drop 1 sd)
              @ ''e'' @ (if n - 1 < 0 then ''-'' else ''+'') @ digits_of (nat \<bar>n - 1\<bar>))"

definition num_to_string :: "jsnum \<Rightarrow> string" where
  "num_to_string n =
     (case n of
        NaN \<Rightarrow> ''NaN''
      | PosInf \<Rightarrow> ''Infinity''
      | NegInf \<Rightarrow> ''-Infinity''
      | Dec m k \<Rightarrow>
          if m = 0 then ''0''
          else (if m < 0 then ''-'' else []) @ positive_to_string (nat \<bar>m\<bar>) k)"

subsection \<open>parseFloat on a string\<close>

text \<open>
  Leading white space is skipped (the WhiteSpace and LineTerminator code points, in their
  UTF-8 encoding), then the longest prefix that is a StrDecimalLiteral is read: an optional
  sign, then \<^verbatim>\<open>Infinity\<close> or decimal digits with an optional fraction and an optional
  exponent. Without such a prefix the result is \<^verbatim>\<open>NaN\<close>.
\<close>

definition white_space :: "string list" where
  "white_space =
     [[CHR 0x09], [CHR 0x0A], [CHR 0x0B], [CHR 0x0C], [CHR 0x0D], [CHR 0x20],
      [CHR 0xC2, CHR 0xA0], [CHR 0xE1, CHR 0x9A, CHR 0x80],
      [CHR 0xE2, CHR 0x80, CHR 0x80], [CHR 0xE2, CHR 0x80, CHR 0x81],
      [CHR 0xE2, CHR 0x80, CHR 0x82], [CHR 0xE2, CHR 0x80, CHR 0x83],
      [CHR 0xE2, CHR 0x80, CHR 0x84], [CHR 0xE2, CHR 0x80, CHR 0x85],
      [CHR 0xE2, CHR 0x80, CHR 0x86], [CHR 0xE2, CHR 0x80, CHR 0x87],
      [CHR 0xE2, CHR 0x80, CHR 0x88], [CHR 0xE2, CHR 0x80, CHR 0x89],
      [CHR 0xE2, CHR 0x80, CHR 0x8A], [CHR 0xE2, CHR 0x80, CHR 0xA8],
      [CHR 0xE2, CHR 0x80, CHR 0xA9], [CHR 0xE2, CHR 0x80, CHR 0xAF],
      [CHR 0xE2, CHR 0x81, CHR 0x9F], [CHR 0xE3, CHR 0x80, CHR 0x80],
      [CHR 0xEF, CHR 0xBB, CHR 0xBF]]"

text \<open>The number of bytes of the white space code point that \<open>s\<close> starts with, or 0.\<close>

definition space_prefix :: "string \<Rightarrow> nat" where
  "space_prefix s =
     (case find (\<lambda>w. take (length w) s = w) white_space of
        None \<Rightarrow> 0
      | Some w \<Rightarrow> length w)"

primrec skip_spaces :: "nat \<Rightarrow> string \<Rightarrow> string" where
  "skip_spaces 0 s = s"
| "skip_spaces (Suc n) s =
     (if space_prefix s = 0 then s else skip_spaces n (drop (space_prefix s) s))"

definition is_digit :: "char \<Rightarrow> bool" where
  "is_digit c = (c \<in> set ''0123456789'')"

definition digit_val :: "char \<Rightarrow> nat" where
  "digit_val c = of_char c - of_char CHR ''0''"

definition digits_val :: "string \<Rightarrow> nat" where
  "digits_val s = foldl (\<lambda>acc c. 10 * acc + digit_val c) 0 s"

text \<open>Trailing zeros of the fraction are dropped, so that a number has one representation.\<close>

fun norm_dec :: "int \<Rightarrow> nat \<Rightarrow> jsnum" where
  "norm_dec m 0 = Dec m 0"
| "norm_dec m (Suc k) = (if m mod 10 = 0 then norm_dec (m div 10) k else Dec m (Suc k))"

text \<open>The value \<open>m * 10 ^ (e - k)\<close> of the digits \<open>m\<close> with \<open>k\<close> fraction digits and exponent \<open>e\<close>.\<close>

definition mk_dec :: "int \<Rightarrow> nat \<Rightarrow> int \<Rightarrow> jsnum" where
  "mk_dec m k e =
     (if int k \<le> e then Dec (m * 10 ^ nat (e - int k)) 0 else norm_dec m (nat (int k - e)))"

definition exponent_part :: "string \<Rightarrow> int" where
  "exponent_part r =
     (case r of
        [] \<Rightarrow> 0
      | c # t \<Rightarrow>
          if c = CHR ''e'' \<or> c = CHR ''E'' then
            (case t of
               [] \<Rightarrow> 0
             | s # u \<Rightarrow>
                 if s = CHR ''-'' then - int (digits_val (takeWhile is_digit u))
                 else if s = CHR ''+'' then int (digits_val (takeWhile is_digit u))
                 else int (digits_val (takeWhile is_digit t)))
          else 0)"

definition parse_unsigned :: "bool \<Rightarrow> string \<Rightarrow> jsnum" where
  "parse_unsigned neg s =
     (if take 8 s = ''Infinity'' then (if neg then NegInf else PosInf)
      else
        let ip = takeWhile is_digit s;
            r1 = dropWhile is_digit s;
            fp = (case r1 of [] \<Rightarrow> [] | c # t \<Rightarrow> if c = CHR ''.'' then takeWhile is_digit t else []);
            r2 = (case r1 of [] \<Rightarrow> [] | c # t \<Rightarrow> if c = CHR ''.'' then dropWhile is_digit t else r1)
        in if ip = [] \<and> fp = [] then NaN
           else mk_dec ((if neg then - 1 else 1) * int (digits_val (ip @ fp))) (length fp)
                  (exponent_part r2))"

definition parse_float_string :: "string \<Rightarrow> jsnum" where
  "parse_float_string s =
     (case skip_spaces (length s) s of
        [] \<Rightarrow> NaN
      | c # t \<Rightarrow>
          if c = CHR ''-'' then parse_unsigned True t
          else if c = CHR ''+'' then parse_unsigned False t
          else parse_unsigned False (c # t))"

subsection \<open>Attribute names\<close>

text \<open>
  The DOM standard's rule for the name that \<^verbatim>\<open>setAttribute\<close> is given: it is not empty and
  has no ASCII white space, no NUL, and none of \<^verbatim>\<open>/\<close>, \<^verbatim>\<open>=\<close>, \<^verbatim>\<open>>\<close> (hosts that follow
  the earlier rule, the Name production of XML, refuse more names). And the ASCII lowercase
  of a name, which the attribute methods of an HTML element in an HTML document use.
\<close>

definition valid_attribute_name :: "string \<Rightarrow> bool" where
  "valid_attribute_name n =
     (n \<noteq> [] \<and>
      (\<forall>c \<in> set n. c \<notin> set [CHR 0x09, CHR 0x0A, CHR 0x0C, CHR 0x0D, CHR 0x20, CHR 0x00,
                              CHR ''/'', CHR ''='', CHR ''>'']))"

definition lower_char :: "char \<Rightarrow> char" where
  "lower_char c =
     (case map_of (zip ''ABCDEFGHIJKLMNOPQRSTUVWXYZ'' ''abcdefghijklmnopqrstuvwxyz'') c of
        None \<Rightarrow> c
      | Some l \<Rightarrow> l)"

definition ascii_lowercase :: "string \<Rightarrow> string" where
  "ascii_lowercase n = map lower_char n"

definition browser :: host where
  "browser =
     \<lparr>parse_float = parse_float_string, number_to_string = num_to_string,
      valid_name = valid_attribute_name, normal_name = ascii_lowercase\<rparr>"

section \<open>Attribute configs\<close>

text \<open>
  An \<^verbatim>\<open>AttributeConfig\<close> object of the static \<^verbatim>\<open>attributes\<close> array. A name that the
  object omits is \<open>None\<close> (JavaScript's \<^verbatim>\<open>undefined\<close>); an omitted \<^verbatim>\<open>defaultValue\<close> is
  \<open>Undefined\<close>; an omitted \<^verbatim>\<open>readonly\<close> is \<open>False\<close>. The field \<^verbatim>\<open>type\<close> is named
  \<open>attributeType\<close>, as the source's destructuring does.
\<close>

record attributeConfig =
  idlName :: "string option"
  contentName :: "string option"
  proxyTarget :: "string option"
  attributeType :: "string option"
  defaultValue :: jsval
  readonly :: bool

fun name_val :: "string option \<Rightarrow> jsval" where
  "name_val None = Undefined"
| "name_val (Some s) = JStr s"

text \<open>The source tests names for truthiness: an omitted name and the empty string are falsy.\<close>

definition truthy_name :: "string option \<Rightarrow> bool" where
  "truthy_name n = truthy (name_val n)"

text \<open>
  ToPropertyKey, and the string conversion of an attribute name: an omitted name
  becomes the key \<^verbatim>\<open>"undefined"\<close>.
\<close>

fun property_key :: "string option \<Rightarrow> string" where
  "property_key None = ''undefined''"
| "property_key (Some s) = s"

text \<open>\<^verbatim>\<open>const reflectToContentAttribute = Boolean(contentAttributeName)\<close>\<close>

definition reflectToContentAttribute :: "attributeConfig \<Rightarrow> bool" where
  "reflectToContentAttribute d = truthy_name (contentName d)"

section \<open>The element\<close>

datatype error =
    BaseNotHTMLElement
      \<comment> \<open>\<^verbatim>\<open>Error('Base parameter must be HTMLElement or a class that extends from or inherits HTMLElement. ...')\<close>\<close>
  | IdlNameRequired
      \<comment> \<open>\<^verbatim>\<open>Error('You must provide a value for "idlName" when using a proxyTarget.')\<close>\<close>
  | ContentNameWithProxyTarget
      \<comment> \<open>\<^verbatim>\<open>Error('The "contentName" and "proxyTarget" properties cannot be used together.')\<close>\<close>
  | ReadonlyWithoutValue
      \<comment> \<open>\<^verbatim>\<open>Error('You must provide a proxyTarget or defaultValue for readonly attributes.')\<close>\<close>
  | TypeError
      \<comment> \<open>raised by the language: a property of \<^verbatim>\<open>undefined\<close> is read or written, a property
          that is not writable is assigned in strict mode, a value that is not a function is
          called, a property that is not configurable is defined again; and by
          \<^verbatim>\<open>super()\<close> for a class that is not a registered custom element\<close>
  | InvalidCharacterError
      \<comment> \<open>raised by \<^verbatim>\<open>setAttribute\<close> for a name that is not valid\<close>
  | OtherError
      \<comment> \<open>any other exception that a getter or a setter of a proxy target raises\<close>

text \<open>A read of a Map entry or of an object property that is missing gives \<^verbatim>\<open>undefined\<close>.\<close>

definition js_get :: "('k \<rightharpoonup> jsval) \<Rightarrow> 'k \<Rightarrow> jsval" where
  "js_get m k = (case m k of None \<Rightarrow> Undefined | Some v \<Rightarrow> v)"

text \<open>
  An object that can be a proxy target is what it does when a property is read
  (\<open>get_prop\<close>) and when a property is assigned (\<open>set_prop\<close>). A read gives a value, or
  raises when the property has a getter that throws. The source is a module, so an assignment
  that the object refuses raises (a TypeError for a frozen object or a property with a getter
  only), and a setter of the object may store another value than the one assigned (an input
  element stores a string) or raise an exception of its own. \<open>set_prop\<close> gives the
  exception, if there is one, and the object afterwards. A read is taken to leave the object
  as it is.
\<close>

codatatype js_object =
  Object (get_prop: "string \<Rightarrow> error + jsval")
         (set_prop: "string \<Rightarrow> jsval \<Rightarrow> error option \<times> js_object")

text \<open>
  An object with the data properties \<open>m\<close> and no others, all writable, to which properties can
  be added (an object literal, for keys that \<^verbatim>\<open>Object.prototype\<close> does not have); and the
  same object frozen.
\<close>

primcorec plain_object :: "(string \<rightharpoonup> jsval) \<Rightarrow> js_object" where
  "get_prop (plain_object m) = (\<lambda>k. Inr (js_get m k))"
| "set_prop (plain_object m) = (\<lambda>k v. (None, plain_object (m(k \<mapsto> v))))"


text \<open>
  The state of one custom element, as far as the accessors read and write it:
  \<^item> \<open>attrs\<close>: its content attributes, behind \<^verbatim>\<open>getAttribute\<close>, \<^verbatim>\<open>setAttribute\<close>,
    \<^verbatim>\<open>removeAttribute\<close> and \<^verbatim>\<open>hasAttribute\<close> of the host;
  \<^item> \<open>idlAttributes\<close>: the private \<^verbatim>\<open>#idlAttributes\<close> Map, whose keys are the
    \<^verbatim>\<open>idlName\<close> values themselves (\<open>None\<close> is the key \<^verbatim>\<open>undefined\<close>);
  \<^item> \<open>props\<close>: what \<^verbatim>\<open>this[name]\<close> is for the names that are used as proxy targets, where it
    is an object (a public field of the sub class, which is an own property of the element
    and so is found before any accessor on the prototype); \<open>None\<close> where it is
    \<^verbatim>\<open>undefined\<close> or \<^verbatim>\<open>null\<close>, of which no property can be read or written (an element
    on which evaluating \<^verbatim>\<open>this[name]\<close> itself raises is outside the model);
  \<^item> \<open>calls\<close>: the arguments of the calls of \<^verbatim>\<open>attributeChangedCallback\<close> that the
    accessors make, oldest first. The hook is taken to record its arguments and return.
    The calls that the host makes on its own when an observed content attribute changes are
    not part of it.
\<close>

record element =
  attrs :: "string \<rightharpoonup> string"
  idlAttributes :: "string option \<rightharpoonup> jsval"
  props :: "string \<rightharpoonup> js_object"
  calls :: "(jsval \<times> jsval \<times> jsval) list"

subsection \<open>The host's attribute interface\<close>

definition hasAttribute :: "host \<Rightarrow> string \<Rightarrow> element \<Rightarrow> bool" where
  "hasAttribute h n s = (attrs s (normal_name h n) \<noteq> None)"

definition getAttribute :: "host \<Rightarrow> string \<Rightarrow> element \<Rightarrow> jsval" where
  "getAttribute h n s = (case attrs s (normal_name h n) of None \<Rightarrow> Null | Some v \<Rightarrow> JStr v)"

definition setAttribute :: "host \<Rightarrow> string \<Rightarrow> jsval \<Rightarrow> element \<Rightarrow> error + element" where
  "setAttribute h n v s =
     (if valid_name h n then Inr (s\<lparr>attrs := (attrs s)(normal_name h n \<mapsto> to_string h v)\<rparr>)
      else Inl InvalidCharacterError)"

definition removeAttribute :: "host \<Rightarrow> string \<Rightarrow> element \<Rightarrow> element" where
  "removeAttribute h n s = s\<lparr>attrs := (attrs s)(normal_name h n := None)\<rparr>"

text \<open>The change-notification hook, observed through the arguments it receives.\<close>

definition attributeChangedCallback :: "jsval \<Rightarrow> jsval \<Rightarrow> jsval \<Rightarrow> element \<Rightarrow> element" where
  "attributeChangedCallback attributeName oldValue newValue s =
     s\<lparr>calls := calls s @ [(attributeName, oldValue, newValue)]\<rparr>"

section \<open>The prototype\<close>

text \<open>
  The accessor properties that the mixin has defined on the prototype of the sub class: each
  key with the config whose getter and setter it holds.

  The code of the mixin looks up six members on the element by name: \<^verbatim>\<open>this.constructor\<close>,
  \<^verbatim>\<open>this.attributeChangedCallback\<close>, \<^verbatim>\<open>this.hasAttribute\<close>, \<^verbatim>\<open>this.getAttribute\<close>,
  \<^verbatim>\<open>this.setAttribute\<close> and \<^verbatim>\<open>this.removeAttribute\<close>. An accessor that the mixin has
  defined under such a name is found first; its getter returns a primitive value (or
  raises), and calling that value, or defining a property on its \<^verbatim>\<open>prototype\<close>, raises a
  TypeError. \<open>reaches proto name\<close> says that the lookup reaches the member of the class or
  of the host.
\<close>

type_synonym prototype = "string \<rightharpoonup> attributeConfig"

definition reaches :: "prototype \<Rightarrow> string \<Rightarrow> bool" where
  "reaches proto name = (proto name = None)"

section \<open>The accessors that \<^verbatim>\<open>#setupAttribute\<close> defines\<close>

text \<open>
  \<^verbatim>\<open>#setupAttribute\<close> defines one accessor property per config; its getter and setter close over
  the fields of the config. \<open>getter_boolean h proto d\<close> is the getter defined for the config
  \<open>d\<close> in the case \<^verbatim>\<open>'boolean'\<close> of the \<^verbatim>\<open>switch\<close>, applied to the element \<^verbatim>\<open>this\<close> of a class
  with the prototype \<open>proto\<close>, and so on. A getter returns a value or raises, and changes
  nothing. A setter returns the element as it has changed it, or raises, and then \<open>Inl\<close>
  holds the exception and the element as the setter left it.
\<close>

text \<open>\<^verbatim>\<open>this[proxyTarget][idlAttributeName]\<close>, read.\<close>

definition proxy_read :: "attributeConfig \<Rightarrow> element \<Rightarrow> error + jsval" where
  "proxy_read d s =
     (case props s (property_key (proxyTarget d)) of
        None \<Rightarrow> Inl TypeError
      | Some obj \<Rightarrow> get_prop obj (property_key (idlName d)))"

text \<open>\<^verbatim>\<open>this[proxyTarget][idlAttributeName] = value\<close>\<close>

definition proxy_write ::
  "attributeConfig \<Rightarrow> jsval \<Rightarrow> element \<Rightarrow> error \<times> element + element" where
  "proxy_write d v s =
     (case props s (property_key (proxyTarget d)) of
        None \<Rightarrow> Inl (TypeError, s)
      | Some obj \<Rightarrow>
          (case set_prop obj (property_key (idlName d)) v of
             (None, obj') \<Rightarrow> Inr (s\<lparr>props := (props s)(property_key (proxyTarget d) \<mapsto> obj')\<rparr>)
           | (Some e, obj') \<Rightarrow>
               Inl (e, s\<lparr>props := (props s)(property_key (proxyTarget d) \<mapsto> obj')\<rparr>)))"

definition getter_boolean :: "host \<Rightarrow> prototype \<Rightarrow> attributeConfig \<Rightarrow> element \<Rightarrow> error + jsval" where
  "getter_boolean h proto d s =
     (if truthy_name (proxyTarget d) then
        (case proxy_read d s of
           Inl e \<Rightarrow> Inl e
         | Inr v \<Rightarrow> Inr (JBool (if v \<noteq> Undefined then truthy v else truthy (defaultValue d))))
      else if \<not> reflectToContentAttribute d then
        (let v = js_get (idlAttributes s) (idlName d)
         in Inr (JBool (if v \<noteq> Undefined then truthy v else truthy (defaultValue d))))
      else if reaches proto ''hasAttribute'' then
        Inr (JBool (hasAttribute h (property_key (contentName d)) s))
      else Inl TypeError)"

text \<open>
  The three lines of the branch \<^verbatim>\<open>if (!reflectToContentAttribute)\<close>, which every setter
  repeats: read the old value from the Map, store the new one, call the hook.
\<close>

definition store_and_notify ::
  "prototype \<Rightarrow> attributeConfig \<Rightarrow> jsval \<Rightarrow> element \<Rightarrow> error \<times> element + element" where
  "store_and_notify proto d v s =
     (let oldValue = js_get (idlAttributes s) (idlName d);
          s1 = s\<lparr>idlAttributes := (idlAttributes s)(idlName d \<mapsto> v)\<rparr>
      in if reaches proto ''attributeChangedCallback'' then
           Inr (attributeChangedCallback (name_val (idlName d)) oldValue v s1)
         else Inl (TypeError, s1))"

text \<open>\<^verbatim>\<open>if (proxyTarget) { this[proxyTarget][idlAttributeName] = value; }\<close>: no return follows.\<close>

definition write_proxy_if_set ::
  "attributeConfig \<Rightarrow> jsval \<Rightarrow> element \<Rightarrow> error \<times> element + element" where
  "write_proxy_if_set d v s = (if truthy_name (proxyTarget d) then proxy_write d v s else Inr s)"

text \<open>\<^verbatim>\<open>this.setAttribute(contentAttributeName, value)\<close> and \<^verbatim>\<open>this.removeAttribute(...)\<close>\<close>

definition call_setAttribute ::
  "host \<Rightarrow> prototype \<Rightarrow> string \<Rightarrow> jsval \<Rightarrow> element \<Rightarrow> error \<times> element + element" where
  "call_setAttribute h proto n v s =
     (if reaches proto ''setAttribute'' then
        (case setAttribute h n v s of Inl e \<Rightarrow> Inl (e, s) | Inr s' \<Rightarrow> Inr s')
      else Inl (TypeError, s))"

definition call_removeAttribute ::
  "host \<Rightarrow> prototype \<Rightarrow> string \<Rightarrow> element \<Rightarrow> error \<times> element + element" where
  "call_removeAttribute h proto n s =
     (if reaches proto ''removeAttribute'' then Inr (removeAttribute h n s)
      else Inl (TypeError, s))"

definition setter_boolean ::
  "host \<Rightarrow> prototype \<Rightarrow> attributeConfig \<Rightarrow> jsval \<Rightarrow> element \<Rightarrow> error \<times> element + element" where
  "setter_boolean h proto d v s =
     (if readonly d then Inr s
      else
        (case write_proxy_if_set d v s of
           Inl e \<Rightarrow> Inl e
         | Inr s1 \<Rightarrow>
             if \<not> reflectToContentAttribute d then store_and_notify proto d v s1
             else if truthy v then
               call_setAttribute h proto (property_key (contentName d)) (JStr []) s1
             else call_removeAttribute h proto (property_key (contentName d)) s1))"

definition getter_number :: "host \<Rightarrow> prototype \<Rightarrow> attributeConfig \<Rightarrow> element \<Rightarrow> error + jsval" where
  "getter_number h proto d s =
     (if truthy_name (proxyTarget d) then
        (case proxy_read d s of
           Inl e \<Rightarrow> Inl e
         | Inr v \<Rightarrow> Inr (js_or (JNum (parseFloat h v)) Null))
      else if \<not> reflectToContentAttribute d then
        Inr (js_or (js_or (JNum (parseFloat h (js_get (idlAttributes s) (idlName d))))
                          (JNum (parseFloat h (defaultValue d))))
                   Null)
      else if reaches proto ''getAttribute'' then
        Inr (js_or (js_or (JNum (parseFloat h (getAttribute h (property_key (contentName d)) s)))
                          (JNum (parseFloat h (defaultValue d))))
                   Null)
      else Inl TypeError)"

definition setter_number ::
  "host \<Rightarrow> prototype \<Rightarrow> attributeConfig \<Rightarrow> jsval \<Rightarrow> element \<Rightarrow> error \<times> element + element" where
  "setter_number h proto d v s =
     (if readonly d then Inr s
      else
        (case write_proxy_if_set d v s of
           Inl e \<Rightarrow> Inl e
         | Inr s1 \<Rightarrow>
             if \<not> reflectToContentAttribute d then store_and_notify proto d v s1
             else call_setAttribute h proto (property_key (contentName d)) v s1))"

definition getter_default :: "host \<Rightarrow> prototype \<Rightarrow> attributeConfig \<Rightarrow> element \<Rightarrow> error + jsval" where
  "getter_default h proto d s =
     (if truthy_name (proxyTarget d) then proxy_read d s
      else if \<not> reflectToContentAttribute d then
        Inr (js_or (js_or (js_get (idlAttributes s) (idlName d)) (defaultValue d))
                   (if attributeType d = Some ''string'' then JStr [] else Null))
      else if reaches proto ''getAttribute'' then
        Inr (js_or (js_or (getAttribute h (property_key (contentName d)) s) (defaultValue d))
                   (JStr []))
      else Inl TypeError)"

definition setter_default ::
  "host \<Rightarrow> prototype \<Rightarrow> attributeConfig \<Rightarrow> jsval \<Rightarrow> element \<Rightarrow> error \<times> element + element" where
  "setter_default h proto d v s =
     (if readonly d then Inr s
      else
        (case write_proxy_if_set d v s of
           Inl e \<Rightarrow> Inl e
         | Inr s1 \<Rightarrow>
             if \<not> reflectToContentAttribute d then store_and_notify proto d v s1
             else call_setAttribute h proto (property_key (contentName d)) v s1))"

text \<open>The \<^verbatim>\<open>switch (attributeType)\<close>: which getter and setter the property of a config gets.\<close>

definition getter :: "host \<Rightarrow> prototype \<Rightarrow> attributeConfig \<Rightarrow> element \<Rightarrow> error + jsval" where
  "getter h proto d =
     (if attributeType d = Some ''boolean'' then getter_boolean h proto d
      else if attributeType d = Some ''number'' then getter_number h proto d
      else getter_default h proto d)"

definition setter ::
  "host \<Rightarrow> prototype \<Rightarrow> attributeConfig \<Rightarrow> jsval \<Rightarrow> element \<Rightarrow> error \<times> element + element" where
  "setter h proto d =
     (if attributeType d = Some ''boolean'' then setter_boolean h proto d
      else if attributeType d = Some ''number'' then setter_number h proto d
      else setter_default h proto d)"

section \<open>Installation\<close>

text \<open>
  \<^verbatim>\<open>Object.defineProperty(this.constructor.prototype, idlAttributeName, { get, set })\<close>. It is
  called without \<^verbatim>\<open>configurable\<close>, so the property it defines cannot be defined again: a
  second definition of a key raises a TypeError. (The members that a class body puts on its
  prototype are configurable; defining over them succeeds, and they are not recorded.)
  And once an accessor is defined under the key \<^verbatim>\<open>"constructor"\<close>, \<^verbatim>\<open>this.constructor\<close> is
  what its getter returns, and the call raises a TypeError.
\<close>

definition defineProperty :: "string \<Rightarrow> attributeConfig \<Rightarrow> prototype \<Rightarrow> error + prototype" where
  "defineProperty key d proto =
     (if \<not> reaches proto ''constructor'' then Inl TypeError
      else
        (case proto key of
           Some _ \<Rightarrow> Inl TypeError
         | None \<Rightarrow> Inr (proto(key \<mapsto> d))))"

definition setupAttribute :: "attributeConfig \<Rightarrow> prototype \<Rightarrow> error + prototype" where
  "setupAttribute d proto =
     (if truthy_name (proxyTarget d) \<and> \<not> truthy_name (idlName d) then Inl IdlNameRequired
      else if truthy_name (proxyTarget d) \<and> truthy_name (contentName d) then
        Inl ContentNameWithProxyTarget
      else if readonly d \<and> \<not> truthy_name (proxyTarget d) \<and> defaultValue d = Undefined then
        Inl ReadonlyWithoutValue
      else defineProperty (property_key (idlName d)) d proto)"

text \<open>
  \<^verbatim>\<open>attributeConfigs.forEach(...)\<close>: the first config that raises ends the loop. (The
  accessors defined before it stay on the prototype; the model ends with the exception.)
\<close>

fun setupAttributes :: "attributeConfig list \<Rightarrow> prototype \<Rightarrow> error + prototype" where
  "setupAttributes [] proto = Inr proto"
| "setupAttributes (d # ds) proto =
     (case setupAttribute d proto of
        Inl e \<Rightarrow> Inl e
      | Inr proto' \<Rightarrow> setupAttributes ds proto')"

subsection \<open>The mixin class\<close>

text \<open>
  What \<^verbatim>\<open>attributesMixin(Base)\<close> looks at in \<^verbatim>\<open>Base\<close>, a class as the type of the
  parameter says: whether it is \<^verbatim>\<open>HTMLElement\<close> itself, and whether
  \<^verbatim>\<open>Base.prototype instanceof HTMLElement\<close>.
\<close>

record base =
  is_HTMLElement :: bool
  prototype_instanceof_HTMLElement :: bool

text \<open>
  The class that the sub class extends, with the sub class: the private static
  \<^verbatim>\<open>#attributesReady\<close>, the static \<^verbatim>\<open>attributes\<close> of the sub class, the accessors on its
  prototype, and whether the sub class has been registered with \<^verbatim>\<open>customElements.define\<close>
  (\<^verbatim>\<open>super()\<close>, the constructor of \<^verbatim>\<open>HTMLElement\<close>, raises a TypeError otherwise).
\<close>

record mixin_class =
  attributesReady :: bool
  attributes :: "attributeConfig list"
  prototype :: prototype
  registered :: bool

definition attributesMixin :: "base \<Rightarrow> error + mixin_class" where
  "attributesMixin b =
     (if \<not> is_HTMLElement b \<and> prototype_instanceof_HTMLElement b = False then
        Inl BaseNotHTMLElement
      else Inr \<lparr>attributesReady = False, attributes = [], prototype = Map.empty,
                registered = False\<rparr>)"

text \<open>\<^verbatim>\<open>class WebComponent extends attributesMixin(Base) { static attributes = ds }\<close> and
  \<^verbatim>\<open>customElements.define(name, WebComponent)\<close>\<close>

definition define_element :: "attributeConfig list \<Rightarrow> mixin_class \<Rightarrow> mixin_class" where
  "define_element ds c = c\<lparr>attributes := ds, registered := True\<rparr>"

text \<open>
  The element after \<^verbatim>\<open>super()\<close> and \<^verbatim>\<open>this.#idlAttributes = new Map()\<close>; \<open>targets\<close> are the
  public fields that the sub class initialises (its proxy targets).
\<close>

definition new_element :: "(string \<rightharpoonup> js_object) \<Rightarrow> element" where
  "new_element targets =
     \<lparr>attrs = Map.empty, idlAttributes = Map.empty, props = targets, calls = []\<rparr>"

text \<open>
  The constructor: \<^verbatim>\<open>super()\<close>, the new Map, and unless \<^verbatim>\<open>#attributesReady\<close> is set,
  \<^verbatim>\<open>this.#setupAttributes(this.constructor.attributes)\<close> (where \<^verbatim>\<open>this.constructor\<close> is read
  as above) and \<^verbatim>\<open>Mixin.#attributesReady = true\<close>.
\<close>

definition constructor ::
  "(string \<rightharpoonup> js_object) \<Rightarrow> mixin_class \<Rightarrow> error + (mixin_class \<times> element)" where
  "constructor targets c =
     (if \<not> registered c then Inl TypeError
      else if attributesReady c then Inr (c, new_element targets)
      else if \<not> reaches (prototype c) ''constructor'' then Inl TypeError
      else
        (case setupAttributes (attributes c) (prototype c) of
           Inl e \<Rightarrow> Inl e
         | Inr proto \<Rightarrow> Inr (c\<lparr>prototype := proto, attributesReady := True\<rparr>, new_element targets)))"

text \<open>The static getter \<^verbatim>\<open>observedAttributes\<close>: \<^verbatim>\<open>filter\<close> on the truthiness of
  \<^verbatim>\<open>contentName\<close>, then \<^verbatim>\<open>map\<close> to \<^verbatim>\<open>contentName\<close>.\<close>

definition observedAttributes :: "mixin_class \<Rightarrow> string option list" where
  "observedAttributes c =
     map contentName (filter (\<lambda>d. truthy_name (contentName d)) (attributes c))"

section \<open>What a script can do to an element\<close>

text \<open>
  The states that an element can reach are those that a script produces from a new element:
  it assigns to a property (which runs the setter, when the prototype has an accessor under
  that key; when the setter raises, the script goes on with the element as the setter left
  it), it sets or removes a content attribute through the host, or it defines an own
  property of the element that holds an object, or deletes it (which is also how a change
  inside a proxy target shows). Reading a property runs a getter, which changes nothing.
\<close>

datatype action =
    Assign string jsval
  | SetAttribute string jsval
  | RemoveAttribute string
  | PutTarget string "js_object option"

text \<open>The element after a setter has run, to its end or to an exception.\<close>

fun state_after :: "error \<times> element + element \<Rightarrow> element" where
  "state_after (Inl (e, s)) = s"
| "state_after (Inr s) = s"

fun perform :: "host \<Rightarrow> prototype \<Rightarrow> action \<Rightarrow> element \<Rightarrow> element" where
  "perform h proto (Assign key v) s =
     (case proto key of
        None \<Rightarrow> s
      | Some d \<Rightarrow> state_after (setter h proto d v s))"
| "perform h proto (SetAttribute n v) s =
     (case setAttribute h n v s of Inl e \<Rightarrow> s | Inr s' \<Rightarrow> s')"
| "perform h proto (RemoveAttribute n) s = removeAttribute h n s"
| "perform h proto (PutTarget n obj) s = s\<lparr>props := (props s)(n := obj)\<rparr>"

fun run :: "host \<Rightarrow> prototype \<Rightarrow> action list \<Rightarrow> element \<Rightarrow> element" where
  "run h proto [] s = s"
| "run h proto (a # as) s = run h proto as (perform h proto a s)"

text \<open>Reading the property \<open>key\<close> of an element: the getter of the accessor under that key.\<close>

definition read_property :: "host \<Rightarrow> prototype \<Rightarrow> string \<Rightarrow> element \<Rightarrow> error + jsval" where
  "read_property h proto key s =
     (case proto key of
        None \<Rightarrow> Inr Undefined
      | Some d \<Rightarrow> getter h proto d s)"

text \<open>
  The statements \<^verbatim>\<open>el.x = v; el.x\<close> on the property of the config \<open>d\<close>: the value that
  the read gives, or the exception that ends them, which is the setter's when the setter
  raises.
\<close>

definition set_then_get ::
  "host \<Rightarrow> prototype \<Rightarrow> attributeConfig \<Rightarrow> jsval \<Rightarrow> element \<Rightarrow> error + jsval" where
  "set_then_get h proto d v s =
     (case setter h proto d v s of
        Inl (e, s') \<Rightarrow> Inl e
      | Inr s' \<Rightarrow> getter h proto d s')"

text \<open>
  A prototype on which every accessor sits under the property key of its own config, as
  \<^verbatim>\<open>#setupAttribute\<close> defines them.
\<close>

definition keyed :: "prototype \<Rightarrow> bool" where
  "keyed proto = (\<forall>k d. proto k = Some d \<longrightarrow> property_key (idlName d) = k)"


text \<open>The prototype of a class whose \<^verbatim>\<open>attributes\<close> are the one config \<open>d\<close>.\<close>

definition prototype_of :: "attributeConfig \<Rightarrow> prototype" where
  "prototype_of d = [property_key (idlName d) \<mapsto> d]"

section \<open>The specification's wording, for comparison\<close>

text \<open>
  The observed-attribute list as the specification words it: go through the descriptors in
  order and keep the \<^verbatim>\<open>contentName\<close> of each one that has it set.
\<close>

fun observed_by_spec :: "attributeConfig list \<Rightarrow> string list" where
  "observed_by_spec [] = []"
| "observed_by_spec (d # ds) =
     (case contentName d of
        None \<Rightarrow> observed_by_spec ds
      | Some n \<Rightarrow> if n = [] then observed_by_spec ds else n # observed_by_spec ds)"






section \<open>Configs and elements of the test suite\<close>

text \<open>The config \<^verbatim>\<open>{}\<close>, and the configs of the test file's \<^verbatim>\<open>attributes\<close> array.\<close>

definition empty_config :: attributeConfig where
  "empty_config =
     \<lparr>idlName = None, contentName = None, proxyTarget = None, attributeType = None,
      defaultValue = Undefined, readonly = False\<rparr>"

text \<open>\<^verbatim>\<open>{ idlName: 'attributeX' }\<close>\<close>

definition attributeX :: attributeConfig where
  "attributeX = empty_config\<lparr>idlName := Some ''attributeX''\<rparr>"

text \<open>\<^verbatim>\<open>{ contentName: 'content-attribute-a' }\<close>\<close>

definition contentAttributeA :: attributeConfig where
  "contentAttributeA = empty_config\<lparr>contentName := Some ''content-attribute-a''\<rparr>"

text \<open>\<^verbatim>\<open>{ idlName: 'attributeB', contentName: 'content-attribute-b' }\<close>\<close>

definition attributeB :: attributeConfig where
  "attributeB =
     empty_config\<lparr>idlName := Some ''attributeB'', contentName := Some ''content-attribute-b''\<rparr>"

text \<open>\<^verbatim>\<open>{ idlName: 'value', proxyTarget: 'proxyTargetA' }\<close>\<close>

definition valueProxy :: attributeConfig where
  "valueProxy = empty_config\<lparr>idlName := Some ''value'', proxyTarget := Some ''proxyTargetA''\<rparr>"

text \<open>\<^verbatim>\<open>{ idlName: 'placeholder', proxyTarget: 'proxyTargetA', readonly: true }\<close>\<close>

definition placeholderProxy :: attributeConfig where
  "placeholderProxy =
     empty_config\<lparr>idlName := Some ''placeholder'', proxyTarget := Some ''proxyTargetA'',
                  readonly := True\<rparr>"

text \<open>\<^verbatim>\<open>{ idlName: 'proxyTargetNumber', type: 'number', proxyTarget: 'proxyTargetB' }\<close>\<close>

definition proxyTargetNumber :: attributeConfig where
  "proxyTargetNumber =
     empty_config\<lparr>idlName := Some ''proxyTargetNumber'', proxyTarget := Some ''proxyTargetB'',
                  attributeType := Some ''number''\<rparr>"

text \<open>\<^verbatim>\<open>{ idlName: 'proxyTargetBoolean', type: 'boolean', proxyTarget: 'proxyTargetB' }\<close>\<close>

definition proxyTargetBoolean :: attributeConfig where
  "proxyTargetBoolean =
     empty_config\<lparr>idlName := Some ''proxyTargetBoolean'', proxyTarget := Some ''proxyTargetB'',
                  attributeType := Some ''boolean''\<rparr>"

text \<open>\<^verbatim>\<open>{ idlName: 'readonlyString', readonly: true, defaultValue: 'abc' }\<close>\<close>

definition readonlyString :: attributeConfig where
  "readonlyString =
     empty_config\<lparr>idlName := Some ''readonlyString'', defaultValue := JStr ''abc'',
                  readonly := True\<rparr>"

text \<open>\<^verbatim>\<open>{ idlName: 'readonlyNumber', type: 'number', readonly: true, defaultValue: 123.456 }\<close>\<close>

definition readonlyNumber :: attributeConfig where
  "readonlyNumber =
     empty_config\<lparr>idlName := Some ''readonlyNumber'', attributeType := Some ''number'',
                  defaultValue := JNum (Dec 123456 3), readonly := True\<rparr>"

text \<open>\<^verbatim>\<open>{ idlName: 'readonlyBoolean', type: 'boolean', readonly: true, defaultValue: true }\<close>\<close>

definition readonlyBoolean :: attributeConfig where
  "readonlyBoolean =
     empty_config\<lparr>idlName := Some ''readonlyBoolean'', attributeType := Some ''boolean'',
                  defaultValue := JBool True, readonly := True\<rparr>"

text \<open>\<^verbatim>\<open>{ idlName: 'label', proxyTarget: 'proxyTargetB' }\<close>\<close>

definition labelProxy :: attributeConfig where
  "labelProxy = empty_config\<lparr>idlName := Some ''label'', proxyTarget := Some ''proxyTargetB''\<rparr>"

text \<open>\<^verbatim>\<open>{ idlName: 'mabel', proxyTarget: 'proxyTargetB', readonly: true }\<close>\<close>

definition mabelProxy :: attributeConfig where
  "mabelProxy =
     empty_config\<lparr>idlName := Some ''mabel'', proxyTarget := Some ''proxyTargetB'',
                  readonly := True\<rparr>"

text \<open>\<^verbatim>\<open>{ idlName: 'boolean', type: 'boolean' }\<close>\<close>

definition booleanX :: attributeConfig where
  "booleanX = empty_config\<lparr>idlName := Some ''boolean'', attributeType := Some ''boolean''\<rparr>"

text \<open>\<^verbatim>\<open>{ idlName: 'number', type: 'number' }\<close>\<close>

definition numberX :: attributeConfig where
  "numberX = empty_config\<lparr>idlName := Some ''number'', attributeType := Some ''number''\<rparr>"

text \<open>\<^verbatim>\<open>{ idlName: 'booleanThatReflects', contentName: 'boolean-that-reflects', type: 'boolean' }\<close>\<close>

definition booleanThatReflects :: attributeConfig where
  "booleanThatReflects =
     empty_config\<lparr>idlName := Some ''booleanThatReflects'',
                  contentName := Some ''boolean-that-reflects'',
                  attributeType := Some ''boolean''\<rparr>"

text \<open>\<^verbatim>\<open>{ idlName: 'numberThatReflects', contentName: 'number-that-reflects', type: 'number' }\<close>\<close>

definition numberThatReflects :: attributeConfig where
  "numberThatReflects =
     empty_config\<lparr>idlName := Some ''numberThatReflects'',
                  contentName := Some ''number-that-reflects'', attributeType := Some ''number''\<rparr>"

text \<open>The \<^verbatim>\<open>attributes\<close> array of the test file's \<^verbatim>\<open>WebComponent\<close>.\<close>

definition testAttributes :: "attributeConfig list" where
  "testAttributes =
     [attributeX, contentAttributeA, attributeB, valueProxy, placeholderProxy,
      proxyTargetNumber, proxyTargetBoolean, readonlyString, readonlyNumber, readonlyBoolean,
      labelProxy, mabelProxy, booleanX, numberX, booleanThatReflects, numberThatReflects]"

text \<open>The base \<^verbatim>\<open>HTMLElement\<close>, and the class \<^verbatim>\<open>attributesMixin(HTMLElement)\<close> as the call
  returns it.\<close>

definition HTMLElement :: base where
  "HTMLElement = \<lparr>is_HTMLElement = True, prototype_instanceof_HTMLElement = False\<rparr>"

definition Mixin :: mixin_class where
  "Mixin =
     \<lparr>attributesReady = False, attributes = [], prototype = Map.empty, registered = False\<rparr>"

text \<open>
  A new element whose only proxy target is the object literal of the test file's
  \<^verbatim>\<open>proxyTargetB = { label: '', mabel: '', proxyTargetNumber: null }\<close>.
\<close>

definition webComponent :: element where
  "webComponent =
     new_element
       [''proxyTargetB'' \<mapsto> plain_object [''label'' \<mapsto> JStr [], ''mabel'' \<mapsto> JStr [],
                                            ''proxyTargetNumber'' \<mapsto> Null]]"

text \<open>\<^verbatim>\<open>{ idlName: 'attributeChangedCallback' }\<close>, a property named like the hook.\<close>

definition hookNamed :: attributeConfig where
  "hookNamed = empty_config\<lparr>idlName := Some ''attributeChangedCallback''\<rparr>"

section \<open>Evaluation of the example host\<close>

lemma digits_of_small: "n < 10 \<Longrightarrow> digits_of n = [digit_char n]"
  by (simp add: digits_of.simps)

lemma digits_of_large:
  "\<not> n < 10 \<Longrightarrow> digits_of n = digits_of (n div 10) @ [digit_char (n mod 10)]"
  by (subst digits_of.simps) simp

lemma norm_dec_pos:
  "0 < k \<Longrightarrow> norm_dec m k = (if m mod 10 = 0 then norm_dec (m div 10) (k - 1) else Dec m k)"
  by (cases k) simp_all

lemmas js_eval = browser_def parseFloat_def parse_float_string_def parse_unsigned_def
  white_space_def space_prefix_def is_digit_def mk_dec_def exponent_part_def digits_val_def
  digit_val_def num_to_string_def positive_to_string_def digit_char_def digits_of_small
  digits_of_large norm_dec_pos valid_attribute_name_def ascii_lowercase_def lower_char_def

lemma parseFloat_Undefined: "parseFloat browser Undefined = NaN"
  by (simp add: js_eval)

lemma parseFloat_zero: "parseFloat browser (JNum (Dec 0 0)) = Dec 0 0"
  by (simp add: js_eval)



lemma browser_names:
  "valid_name browser ''number-that-reflects''"
  "normal_name browser ''number-that-reflects'' = ''number-that-reflects''"
  "valid_name browser ''content-attribute-a''"
  "normal_name browser ''content-attribute-a'' = ''content-attribute-a''"
  "\<not> valid_name browser ''a b''"
  by (simp_all add: js_eval)

section \<open>Unfolding the accessors and the examples\<close>

lemmas accessor_defs = getter_def setter_def getter_boolean_def getter_number_def
  getter_default_def setter_boolean_def setter_number_def setter_default_def
  write_proxy_if_set_def store_and_notify_def attributeChangedCallback_def
  reflectToContentAttribute_def proxy_read_def proxy_write_def call_setAttribute_def
  call_removeAttribute_def

lemmas example_defs = empty_config_def attributeX_def contentAttributeA_def attributeB_def
  valueProxy_def proxyTargetNumber_def readonlyString_def numberX_def numberThatReflects_def
  placeholderProxy_def proxyTargetBoolean_def readonlyNumber_def readonlyBoolean_def
  labelProxy_def mabelProxy_def booleanX_def booleanThatReflects_def hookNamed_def
  webComponent_def new_element_def prototype_of_def


section \<open>Writes to a non-reflecting property\<close>

text \<open>
  C6 says that every write to a non-reflecting property stores the value and calls the hook
  once. The setter calls \<^verbatim>\<open>this.attributeChangedCallback(idlAttributeName, oldValue, value)\<close>,
  which looks the hook up by name on the element. For the config
  \<^verbatim>\<open>{ idlName: 'attributeChangedCallback' }\<close>, which installs, that lookup finds the accessor
  that the mixin has defined under this name: its getter returns the string just stored, and
  calling a string raises a TypeError. The write \<^verbatim>\<open>el.attributeChangedCallback = 'abc'\<close>
  stores \<^verbatim>\<open>'abc'\<close> in the private Map, raises, and the hook has not been called.
\<close>

theorem nonreflecting_write_counterexample:
  "setupAttributes [hookNamed] Map.empty = Inr (prototype_of hookNamed)
   \<and> setter browser (prototype_of hookNamed) hookNamed (JStr ''abc'') webComponent =
       Inl (TypeError,
            webComponent\<lparr>idlAttributes := [Some ''attributeChangedCallback'' \<mapsto> JStr ''abc'']\<rparr>)
   \<and> calls webComponent = []"
  by (simp add: setupAttribute_def defineProperty_def reaches_def accessor_defs example_defs
      truthy_name_def js_get_def)

text \<open>
  C6, as the code has it. For every non-reflecting property (\<^verbatim>\<open>idlName\<close> set, no
  \<^verbatim>\<open>contentName\<close>, no \<^verbatim>\<open>proxyTarget\<close>, \<^verbatim>\<open>readonly\<close> not true) of a class that has no property
  named \<^verbatim>\<open>attributeChangedCallback\<close> among its configs, and every write \<open>set(v)\<close>: the write
  returns, and the element afterwards is the element before with \<open>v\<close> stored in the private
  Map under \<^verbatim>\<open>idlName\<close> and with one more call of the hook, whose arguments are
  \<^verbatim>\<open>idlName\<close>, the entry that the Map had under \<^verbatim>\<open>idlName\<close> before the write (\<^verbatim>\<open>undefined\<close> when
  it had none) and \<open>v\<close>. This is so whether or not the old value equals \<open>v\<close>, and nothing else
  of the element changes: no content attribute is created, set or removed.
\<close>

theorem nonreflecting_write:
  assumes "truthy_name (idlName d)" and "\<not> truthy_name (contentName d)"
    and "\<not> truthy_name (proxyTarget d)" and "\<not> readonly d"
    and "reaches proto ''attributeChangedCallback''"
  shows "setter h proto d v s =
     Inr (s\<lparr>idlAttributes := (idlAttributes s)(idlName d \<mapsto> v),
            calls := calls s @
              [(name_val (idlName d),
                (case idlAttributes s (idlName d) of None \<Rightarrow> Undefined | Some old \<Rightarrow> old),
                v)]\<rparr>)"
  using assms by (simp add: accessor_defs js_get_def)

theorem nonreflecting_write_witness:
  "truthy_name (idlName attributeX) \<and> \<not> truthy_name (contentName attributeX)
   \<and> \<not> truthy_name (proxyTarget attributeX) \<and> \<not> readonly attributeX
   \<and> reaches (prototype_of attributeX) ''attributeChangedCallback''
   \<and> setter browser (prototype_of attributeX) attributeX (JStr ''abc'') webComponent =
       Inr (webComponent\<lparr>idlAttributes := [Some ''attributeX'' \<mapsto> JStr ''abc''],
              calls := [(JStr ''attributeX'', Undefined, JStr ''abc'')]\<rparr>)
   \<and> setter browser (prototype_of attributeX) attributeX (JStr ''abc'')
         (webComponent\<lparr>idlAttributes := [Some ''attributeX'' \<mapsto> JStr ''abc''],
              calls := [(JStr ''attributeX'', Undefined, JStr ''abc'')]\<rparr>) =
       Inr (webComponent\<lparr>idlAttributes := [Some ''attributeX'' \<mapsto> JStr ''abc''],
              calls := [(JStr ''attributeX'', Undefined, JStr ''abc''),
                        (JStr ''attributeX'', JStr ''abc'', JStr ''abc'')]\<rparr>)"
proof -
  have a: "truthy_name (idlName attributeX)" "\<not> truthy_name (contentName attributeX)"
    "\<not> truthy_name (proxyTarget attributeX)" "\<not> readonly attributeX"
    "reaches (prototype_of attributeX) ''attributeChangedCallback''"
    by (simp_all add: example_defs truthy_name_def reaches_def)
  show ?thesis
    using a nonreflecting_write [OF a, of browser "JStr ''abc''" webComponent]
      nonreflecting_write [OF a, of browser "JStr ''abc''"
         "webComponent\<lparr>idlAttributes := [Some ''attributeX'' \<mapsto> JStr ''abc''],
              calls := [(JStr ''attributeX'', Undefined, JStr ''abc'')]\<rparr>"]
    by (simp add: example_defs)
qed

section \<open>Writes through a proxy target\<close>




section \<open>Reads through a proxy target\<close>

text \<open>
  C2 says that a getter with \<^verbatim>\<open>proxyTarget\<close> falls back to \<^verbatim>\<open>defaultValue\<close>, coerced, when
  the proxied value is \<^verbatim>\<open>undefined\<close>, for every type. Only the boolean getter does. On an
  element whose \<^verbatim>\<open>proxyTargetB\<close> is the test suite's object literal, which has no property
  \<^verbatim>\<open>size\<close> and no property \<^verbatim>\<open>title\<close>:
  \<^item> the number property \<^verbatim>\<open>{ idlName: 'size', type: 'number', proxyTarget: 'proxyTargetB',
    defaultValue: 5 }\<close> reads \<^verbatim>\<open>null\<close>, not 5: its getter is
    \<^verbatim>\<open>parseFloat(this[proxyTarget][idlAttributeName], 10) || null\<close>;
  \<^item> the untyped property \<^verbatim>\<open>{ idlName: 'title', proxyTarget: 'proxyTargetB',
    defaultValue: 'abc' }\<close> reads \<^verbatim>\<open>undefined\<close>, not \<^verbatim>\<open>'abc'\<close>: its getter returns
    \<^verbatim>\<open>this[proxyTarget][idlAttributeName]\<close> as it is;
  \<^item> the boolean property \<^verbatim>\<open>proxyTargetBoolean\<close> with \<^verbatim>\<open>defaultValue: 5\<close> reads \<^verbatim>\<open>true\<close>,
    which is \<^verbatim>\<open>Boolean(defaultValue)\<close>.
\<close>

theorem proxy_getter_without_default_fallback:
  "getter browser
     (prototype_of (proxyTargetNumber\<lparr>idlName := Some ''size'', defaultValue := JNum (Dec 5 0)\<rparr>))
     (proxyTargetNumber\<lparr>idlName := Some ''size'', defaultValue := JNum (Dec 5 0)\<rparr>)
     webComponent = Inr Null
   \<and> getter browser
       (prototype_of (labelProxy\<lparr>idlName := Some ''title'', defaultValue := JStr ''abc''\<rparr>))
       (labelProxy\<lparr>idlName := Some ''title'', defaultValue := JStr ''abc''\<rparr>)
       webComponent = Inr Undefined
   \<and> getter browser
       (prototype_of (proxyTargetBoolean\<lparr>defaultValue := JNum (Dec 5 0)\<rparr>))
       (proxyTargetBoolean\<lparr>defaultValue := JNum (Dec 5 0)\<rparr>)
       webComponent = Inr (JBool True)"
  by (simp add: accessor_defs example_defs truthy_name_def js_get_def js_or_def
      parseFloat_Undefined)

section \<open>The round trip of a reflecting number property\<close>

lemma getAttribute_setAttribute:
  "setAttribute h n v s = Inr s' \<Longrightarrow> getAttribute h n s' = JStr (to_string h v)"
  by (auto simp: getAttribute_def setAttribute_def split: if_splits)





section \<open>Errors at installation and at run time\<close>

lemma setupAttribute_Inr:
  "setupAttribute d proto = Inr proto' \<Longrightarrow>
     proto (property_key (idlName d)) = None \<and> proto' = proto(property_key (idlName d) \<mapsto> d)
     \<and> reaches proto ''constructor''"
  by (auto simp: setupAttribute_def defineProperty_def split: if_splits option.splits)


lemma setupAttributes_keyed:
  "setupAttributes ds proto = Inr proto' \<Longrightarrow> keyed proto \<Longrightarrow> keyed proto'"
proof (induction ds arbitrary: proto)
  case Nil
  then show ?case by simp
next
  case (Cons d ds)
  from Cons.prems(1) obtain p
    where p: "setupAttribute d proto = Inr p" and r: "setupAttributes ds p = Inr proto'"
    by (auto split: sum.splits)
  from setupAttribute_Inr [OF p] Cons.prems(2) have "keyed p"
    by (auto simp: keyed_def)
  with Cons.IH r show ?case by blast
qed

lemma setupAttributes_extends:
  "setupAttributes ds proto = Inr proto' \<Longrightarrow> proto k = Some d \<Longrightarrow> proto' k = Some d"
proof (induction ds arbitrary: proto)
  case Nil
  then show ?case by simp
next
  case (Cons x ds)
  from Cons.prems(1) obtain p
    where p: "setupAttribute x proto = Inr p" and r: "setupAttributes ds p = Inr proto'"
    by (auto split: sum.splits)
  from setupAttribute_Inr [OF p] Cons.prems(2) have "p k = Some d"
    by auto
  with Cons.IH r show ?case by blast
qed

lemma setupAttributes_member:
  "setupAttributes ds proto = Inr proto' \<Longrightarrow> d \<in> set ds \<Longrightarrow>
     proto' (property_key (idlName d)) = Some d"
proof (induction ds arbitrary: proto)
  case Nil
  then show ?case by simp
next
  case (Cons x ds)
  from Cons.prems(1) obtain p
    where p: "setupAttribute x proto = Inr p" and r: "setupAttributes ds p = Inr proto'"
    by (auto split: sum.splits)
  show ?case
  proof (cases "d = x")
    case True
    with setupAttribute_Inr [OF p] have "p (property_key (idlName d)) = Some d" by simp
    with r show ?thesis by (rule setupAttributes_extends)
  next
    case False
    with Cons.prems(2) have "d \<in> set ds" by simp
    with Cons.IH r show ?thesis by blast
  qed
qed


lemma attributesMixin_Inr:
  "attributesMixin b = Inr c \<Longrightarrow> \<not> attributesReady c \<and> prototype c = Map.empty"
  by (auto simp: attributesMixin_def split: if_splits)

text \<open>The first instance of a registered class installs its configs on an empty prototype.\<close>

lemma constructor_first:
  assumes "attributesMixin b = Inr c"
  shows "constructor targets (define_element ds c) =
       (case setupAttributes ds Map.empty of
          Inl e \<Rightarrow> Inl e
        | Inr proto \<Rightarrow>
            Inr ((define_element ds c)\<lparr>prototype := proto, attributesReady := True\<rparr>,
                 new_element targets))"
  using attributesMixin_Inr [OF assms]
  by (cases "setupAttributes ds Map.empty")
    (simp_all add: constructor_def define_element_def reaches_def)








section \<open>A config with \<^verbatim>\<open>contentName\<close> only\<close>

text \<open>
  C5 says that for a config with \<^verbatim>\<open>contentName\<close> and no \<^verbatim>\<open>idlName\<close> no accessor is
  installed. \<^verbatim>\<open>#setupAttribute\<close> has no case for a missing \<^verbatim>\<open>idlName\<close>: it calls
  \<^verbatim>\<open>Object.defineProperty(prototype, undefined, ...)\<close>, which defines an accessor under the key
  \<^verbatim>\<open>"undefined"\<close>. For the test suite's \<^verbatim>\<open>{ contentName: 'content-attribute-a' }\<close> the
  prototype has that accessor afterwards; once the content attribute is set to \<^verbatim>\<open>'123'\<close>,
  reading \<^verbatim>\<open>el['undefined']\<close> gives \<^verbatim>\<open>'123'\<close>; and a second config of this shape makes
  installation raise a TypeError.
\<close>

theorem contentName_only_installs_accessor:
  "setupAttributes [contentAttributeA] Map.empty = Inr [''undefined'' \<mapsto> contentAttributeA]
   \<and> setAttribute browser ''content-attribute-a'' (JStr ''123'') webComponent =
       Inr (webComponent\<lparr>attrs := [''content-attribute-a'' \<mapsto> ''123'']\<rparr>)
   \<and> read_property browser [''undefined'' \<mapsto> contentAttributeA] ''undefined''
        (webComponent\<lparr>attrs := [''content-attribute-a'' \<mapsto> ''123'']\<rparr>) = Inr (JStr ''123'')
   \<and> setupAttributes
        [contentAttributeA, empty_config\<lparr>contentName := Some ''content-attribute-c''\<rparr>]
        Map.empty = Inl TypeError"
  by (simp add: setupAttribute_def defineProperty_def read_property_def accessor_defs
      example_defs truthy_name_def reaches_def getAttribute_def setAttribute_def js_or_def
      browser_names)

section \<open>The observed attributes\<close>

text \<open>
  C8. For every list of configs, the static getter \<^verbatim>\<open>observedAttributes\<close> returns the
  \<^verbatim>\<open>contentName\<close> values of the configs that have \<^verbatim>\<open>contentName\<close> set, in the order of the
  configs; a config without \<^verbatim>\<open>contentName\<close> contributes nothing.
\<close>

theorem observedAttributes_refines:
  "observedAttributes c = map Some (observed_by_spec (attributes c))"
proof -
  have "map contentName (filter (\<lambda>d. truthy_name (contentName d)) ds) =
        map Some (observed_by_spec ds)" for ds
    by (induction ds) (auto simp: truthy_name_def split: option.splits)
  then show ?thesis by (simp add: observedAttributes_def)
qed

theorem observedAttributes_refines_witness:
  "observedAttributes (Mixin\<lparr>attributes := testAttributes\<rparr>) =
     [Some ''content-attribute-a'', Some ''content-attribute-b'',
      Some ''boolean-that-reflects'', Some ''number-that-reflects'']"
  using observedAttributes_refines [of "Mixin\<lparr>attributes := testAttributes\<rparr>"]
  by (simp add: Mixin_def testAttributes_def example_defs)

section \<open>Readonly properties with a default value\<close>

lemma setter_readonly: "readonly d \<Longrightarrow> setter h proto d v s = Inr s"
  by (simp add: setter_def setter_boolean_def setter_number_def setter_default_def)

text \<open>
  A write to a property leaves the entries of the private Map under every other \<^verbatim>\<open>idlName\<close>
  as they are, whether it returns or raises.
\<close>

lemma setter_store_other:
  assumes "idlName d' \<noteq> k"
  shows "idlAttributes (state_after (setter h proto d' v s)) k = idlAttributes s k"
  using assms
  by (auto simp: accessor_defs setAttribute_def removeAttribute_def Let_def
      split: if_splits sum.splits option.splits prod.splits)

text \<open>
  When every accessor whose config has the \<^verbatim>\<open>idlName\<close> \<open>k\<close> is readonly, nothing that a
  script does changes the entry of \<open>k\<close> in the private Map.
\<close>

lemma perform_store:
  assumes "\<forall>key d'. proto key = Some d' \<and> idlName d' = k \<longrightarrow> readonly d'"
  shows "idlAttributes (perform h proto a s) k = idlAttributes s k"
proof (cases a)
  case (Assign key v)
  show ?thesis
  proof (cases "proto key")
    case None
    with Assign show ?thesis by simp
  next
    case (Some d')
    have "idlAttributes (state_after (setter h proto d' v s)) k = idlAttributes s k"
    proof (cases "idlName d' = k")
      case True
      with assms Some have "readonly d'" by blast
      then show ?thesis by (simp add: setter_readonly)
    next
      case False
      then show ?thesis by (rule setter_store_other)
    qed
    with Assign Some show ?thesis by simp
  qed
next
  case (SetAttribute n v)
  then show ?thesis by (simp add: setAttribute_def)
next
  case (RemoveAttribute n)
  then show ?thesis by (simp add: removeAttribute_def)
next
  case (PutTarget n obj)
  then show ?thesis by simp
qed

lemma run_store:
  assumes "\<forall>key d'. proto key = Some d' \<and> idlName d' = k \<longrightarrow> readonly d'"
  shows "idlAttributes (run h proto as s) k = idlAttributes s k"
proof (induction as arbitrary: s)
  case Nil
  show ?case by simp
next
  case (Cons a as)
  from Cons.IH [of "perform h proto a s"] perform_store [OF assms, of h a s]
  show ?case by simp
qed

lemma installed_same_idlName:
  assumes "setupAttributes ds Map.empty = Inr proto" and "d \<in> set ds"
    and "proto key = Some d'" and "idlName d' = idlName d"
  shows "d' = d"
proof -
  have "keyed Map.empty" by (simp add: keyed_def)
  with assms(1) have "keyed proto" by (rule setupAttributes_keyed)
  with assms(3) have "property_key (idlName d') = key" unfolding keyed_def by blast
  with assms(4) have "key = property_key (idlName d)" by simp
  moreover from assms(1,2) have "proto (property_key (idlName d)) = Some d"
    by (rule setupAttributes_member)
  ultimately show ?thesis using assms(3) by simp
qed

lemma getter_unset:
  assumes "\<not> truthy_name (proxyTarget d)" and "\<not> truthy_name (contentName d)"
    and "idlAttributes s (idlName d) = None"
  shows "getter h proto d s =
     Inr (if attributeType d = Some ''boolean'' then JBool (truthy (defaultValue d))
          else if attributeType d = Some ''number'' then
            js_or (js_or (JNum (parseFloat h Undefined)) (JNum (parseFloat h (defaultValue d))))
                  Null
          else js_or (defaultValue d)
                 (if attributeType d = Some ''string'' then JStr [] else Null))"
  using assms by (simp add: accessor_defs js_get_def js_or_def)

text \<open>
  C7 says that a readonly property with a \<^verbatim>\<open>defaultValue\<close> reads as the \<^verbatim>\<open>defaultValue\<close>,
  coerced per type, forever. The getter looks at \<^verbatim>\<open>proxyTarget\<close> first, so the readonly
  property \<^verbatim>\<open>{ idlName: 'mabel', proxyTarget: 'proxyTargetB', readonly: true,
  defaultValue: 'abc' }\<close>, which installs, reads \<^verbatim>\<open>''\<close>, the value of the proxy target. And
  \<^verbatim>\<open>|| defaultValue ||\<close> passes over a falsy \<^verbatim>\<open>defaultValue\<close>: the readonly property
  \<^verbatim>\<open>{ idlName: 'readonlyString', readonly: true, defaultValue: false }\<close> reads \<^verbatim>\<open>null\<close>.
\<close>

theorem readonly_default_counterexample:
  "readonly (mabelProxy\<lparr>defaultValue := JStr ''abc''\<rparr>)
   \<and> defaultValue (mabelProxy\<lparr>defaultValue := JStr ''abc''\<rparr>) = JStr ''abc''
   \<and> setupAttribute (mabelProxy\<lparr>defaultValue := JStr ''abc''\<rparr>) Map.empty =
       Inr (prototype_of (mabelProxy\<lparr>defaultValue := JStr ''abc''\<rparr>))
   \<and> getter browser (prototype_of (mabelProxy\<lparr>defaultValue := JStr ''abc''\<rparr>))
        (mabelProxy\<lparr>defaultValue := JStr ''abc''\<rparr>) webComponent = Inr (JStr [])
   \<and> readonly (readonlyString\<lparr>defaultValue := JBool False\<rparr>)
   \<and> setupAttribute (readonlyString\<lparr>defaultValue := JBool False\<rparr>) Map.empty =
       Inr (prototype_of (readonlyString\<lparr>defaultValue := JBool False\<rparr>))
   \<and> getter browser (prototype_of (readonlyString\<lparr>defaultValue := JBool False\<rparr>))
        (readonlyString\<lparr>defaultValue := JBool False\<rparr>) webComponent = Inr Null"
  by (simp add: setupAttribute_def defineProperty_def accessor_defs example_defs
      truthy_name_def reaches_def js_get_def js_or_def)

text \<open>
  C7, as the code has it, on every host.
  \<^item> For every config with \<^verbatim>\<open>readonly\<close> true (with or without \<^verbatim>\<open>proxyTarget\<close>, \<^verbatim>\<open>contentName\<close>
    or \<^verbatim>\<open>defaultValue\<close>), in every class and on every element, every write through the setter
    returns and leaves the element as it was: no write to the Map, to a content attribute or
    to a proxy target, and no call of the hook.
  \<^item> For every config with \<^verbatim>\<open>readonly\<close> true, a \<^verbatim>\<open>defaultValue\<close>, and neither \<^verbatim>\<open>proxyTarget\<close>
    nor \<^verbatim>\<open>contentName\<close>, among the configs of a class whose first instance has been
    constructed: after every sequence of property writes, attribute writes and changes of
    proxy targets, the getter returns \<^verbatim>\<open>Boolean(defaultValue)\<close> for the type \<^verbatim>\<open>'boolean'\<close>;
    \<^verbatim>\<open>parseFloat(defaultValue)\<close>, or \<^verbatim>\<open>null\<close> when that is 0 or \<^verbatim>\<open>NaN\<close>, for the type
    \<^verbatim>\<open>'number'\<close>; and otherwise \<^verbatim>\<open>defaultValue\<close> when it is truthy, and \<^verbatim>\<open>''\<close> (type
    \<^verbatim>\<open>'string'\<close>) or \<^verbatim>\<open>null\<close> when it is falsy.
  A getter returns a value and changes nothing, so a read never modifies a content attribute.
\<close>

theorem readonly_default_forever:
  "(readonly d0 \<longrightarrow> setter h proto0 d0 v s0 = Inr s0)
   \<and> (attributesMixin b = Inr c
        \<and> constructor targets (define_element ds c) = Inr (c', el)
        \<and> d \<in> set ds \<and> readonly d \<and> defaultValue d \<noteq> Undefined
        \<and> \<not> truthy_name (proxyTarget d) \<and> \<not> truthy_name (contentName d) \<longrightarrow>
      getter h (prototype c') d (run h (prototype c') acts el) =
        Inr (if attributeType d = Some ''boolean'' then JBool (truthy (defaultValue d))
             else if attributeType d = Some ''number'' then
               js_or (js_or (JNum (parseFloat h Undefined))
                            (JNum (parseFloat h (defaultValue d))))
                     Null
             else js_or (defaultValue d)
                    (if attributeType d = Some ''string'' then JStr [] else Null)))"
proof -
  have 1: "setter h proto0 d0 v s0 = Inr s0" if "readonly d0"
    using that by (rule setter_readonly)
  have 2: "getter h (prototype c') d (run h (prototype c') acts el) =
        Inr (if attributeType d = Some ''boolean'' then JBool (truthy (defaultValue d))
             else if attributeType d = Some ''number'' then
               js_or (js_or (JNum (parseFloat h Undefined))
                            (JNum (parseFloat h (defaultValue d))))
                     Null
             else js_or (defaultValue d)
                    (if attributeType d = Some ''string'' then JStr [] else Null))"
    if m: "attributesMixin b = Inr c"
      and k: "constructor targets (define_element ds c) = Inr (c', el)"
      and i: "d \<in> set ds" and r: "readonly d"
      and p: "\<not> truthy_name (proxyTarget d)" "\<not> truthy_name (contentName d)"
  proof -
    from k have s: "setupAttributes ds Map.empty = Inr (prototype c')"
      and n: "el = new_element targets"
      unfolding constructor_first [OF m] by (auto split: sum.splits)
    have "\<forall>key d'. prototype c' key = Some d' \<and> idlName d' = idlName d \<longrightarrow> readonly d'"
      using installed_same_idlName [OF s i] r by blast
    then have "idlAttributes (run h (prototype c') acts el) (idlName d) =
               idlAttributes el (idlName d)"
      by (rule run_store)
    with n have "idlAttributes (run h (prototype c') acts el) (idlName d) = None"
      by (simp add: new_element_def)
    with p show ?thesis by (rule getter_unset)
  qed
  from 1 2 show ?thesis by blast
qed

theorem readonly_default_forever_witness:
  "readonly mabelProxy
   \<and> setter browser (prototype_of mabelProxy) mabelProxy (JStr ''abc'') webComponent =
       Inr webComponent
   \<and> attributesMixin HTMLElement = Inr Mixin
   \<and> constructor (props webComponent)
        (define_element [attributeX, readonlyString, readonlyNumber] Mixin) =
       Inr (\<lparr>attributesReady = True, attributes = [attributeX, readonlyString, readonlyNumber],
             prototype = [''attributeX'' \<mapsto> attributeX, ''readonlyString'' \<mapsto> readonlyString,
                          ''readonlyNumber'' \<mapsto> readonlyNumber],
             registered = True\<rparr>,
            webComponent)
   \<and> getter browser
        [''attributeX'' \<mapsto> attributeX, ''readonlyString'' \<mapsto> readonlyString,
         ''readonlyNumber'' \<mapsto> readonlyNumber]
        readonlyString
        (run browser
           [''attributeX'' \<mapsto> attributeX, ''readonlyString'' \<mapsto> readonlyString,
            ''readonlyNumber'' \<mapsto> readonlyNumber]
           [Assign ''readonlyString'' (JStr ''xyz''),
            SetAttribute ''readonly-string'' (JStr ''xyz''),
            Assign ''attributeX'' (JStr ''xyz'')]
           webComponent) = Inr (JStr ''abc'')
   \<and> getter browser
        [''attributeX'' \<mapsto> attributeX, ''readonlyString'' \<mapsto> readonlyString,
         ''readonlyNumber'' \<mapsto> readonlyNumber]
        readonlyNumber
        (run browser
           [''attributeX'' \<mapsto> attributeX, ''readonlyString'' \<mapsto> readonlyString,
            ''readonlyNumber'' \<mapsto> readonlyNumber]
           [Assign ''readonlyNumber'' (JNum (Dec 789 0)),
            SetAttribute ''readonly-number'' (JStr ''789.123'')]
           webComponent) = Inr (JNum (Dec 123456 3))"
proof -
  have a: "readonly mabelProxy" by (simp add: example_defs)
  have m: "attributesMixin HTMLElement = Inr Mixin"
    by (simp add: attributesMixin_def HTMLElement_def Mixin_def)
  have c: "constructor (props webComponent)
        (define_element [attributeX, readonlyString, readonlyNumber] Mixin) =
       Inr (\<lparr>attributesReady = True, attributes = [attributeX, readonlyString, readonlyNumber],
             prototype = [''attributeX'' \<mapsto> attributeX, ''readonlyString'' \<mapsto> readonlyString,
                          ''readonlyNumber'' \<mapsto> readonlyNumber],
             registered = True\<rparr>,
            webComponent)"
    by (simp add: constructor_def define_element_def Mixin_def setupAttribute_def
        defineProperty_def reaches_def example_defs truthy_name_def)
  have r: "readonlyString \<in> set [attributeX, readonlyString, readonlyNumber]
        \<and> readonly readonlyString \<and> defaultValue readonlyString \<noteq> Undefined
        \<and> \<not> truthy_name (proxyTarget readonlyString)
        \<and> \<not> truthy_name (contentName readonlyString)"
    "readonlyNumber \<in> set [attributeX, readonlyString, readonlyNumber]
        \<and> readonly readonlyNumber \<and> defaultValue readonlyNumber \<noteq> Undefined
        \<and> \<not> truthy_name (proxyTarget readonlyNumber)
        \<and> \<not> truthy_name (contentName readonlyNumber)"
    by (simp_all add: example_defs truthy_name_def)
  have t: "attributeType readonlyString = None" "defaultValue readonlyString = JStr ''abc''"
    "attributeType readonlyNumber = Some ''number''"
    "defaultValue readonlyNumber = JNum (Dec 123456 3)"
    by (simp_all add: example_defs)
  have pf: "parseFloat browser (JNum (Dec 123456 3)) = Dec 123456 3"
    by (simp add: js_eval)
  show ?thesis
    using a m c
      readonly_default_forever [of mabelProxy browser "prototype_of mabelProxy" "JStr ''abc''"
        webComponent HTMLElement Mixin "props webComponent"
        "[attributeX, readonlyString, readonlyNumber]"
        "\<lparr>attributesReady = True, attributes = [attributeX, readonlyString, readonlyNumber],
           prototype = [''attributeX'' \<mapsto> attributeX, ''readonlyString'' \<mapsto> readonlyString,
                        ''readonlyNumber'' \<mapsto> readonlyNumber],
           registered = True\<rparr>"
        webComponent readonlyString
        "[Assign ''readonlyString'' (JStr ''xyz''),
          SetAttribute ''readonly-string'' (JStr ''xyz''),
          Assign ''attributeX'' (JStr ''xyz'')]"]
      readonly_default_forever [of mabelProxy browser "prototype_of mabelProxy" "JStr ''abc''"
        webComponent HTMLElement Mixin "props webComponent"
        "[attributeX, readonlyString, readonlyNumber]"
        "\<lparr>attributesReady = True, attributes = [attributeX, readonlyString, readonlyNumber],
           prototype = [''attributeX'' \<mapsto> attributeX, ''readonlyString'' \<mapsto> readonlyString,
                        ''readonlyNumber'' \<mapsto> readonlyNumber],
           registered = True\<rparr>"
        webComponent readonlyNumber
        "[Assign ''readonlyNumber'' (JNum (Dec 789 0)),
          SetAttribute ''readonly-number'' (JStr ''789.123'')]"]
    by (simp add: r t pf parseFloat_Undefined js_or_def del: run.simps perform.simps)
qed

section \<open>The getter of a number property\<close>

lemma js_or_number_chain:
  "js_or (js_or (JNum a) (JNum b)) Null = Null
   \<or> (\<exists>n. js_or (js_or (JNum a) (JNum b)) Null = JNum n \<and> truthy_num n)"
  by (simp add: js_or_def)

lemma js_or_number_null:
  "js_or (JNum a) Null = Null \<or> (\<exists>n. js_or (JNum a) Null = JNum n \<and> truthy_num n)"
  by (simp add: js_or_def)

lemma truthy_num_nonzero: "truthy_num n \<Longrightarrow> n \<noteq> NaN \<and> (\<forall>k. n \<noteq> Dec 0 k)"
  by (cases n) auto

lemma getter_number_result:
  "getter_number h proto d s = Inr r \<Longrightarrow> r = Null \<or> (\<exists>n. r = JNum n \<and> truthy_num n)"
  using js_or_number_chain js_or_number_null
  by (fastforce simp: getter_number_def split: if_splits sum.splits)

lemma getter_number_error:
  "getter_number h proto d s = Inl e \<Longrightarrow>
     (truthy_name (proxyTarget d)
      \<and> (case props s (property_key (proxyTarget d)) of
            None \<Rightarrow> e = TypeError
          | Some obj \<Rightarrow> get_prop obj (property_key (idlName d)) = Inl e))
     \<or> (\<not> truthy_name (proxyTarget d) \<and> truthy_name (contentName d)
         \<and> \<not> reaches proto ''getAttribute'' \<and> e = TypeError)"
  by (auto simp: getter_number_def proxy_read_def reflectToContentAttribute_def
      split: if_splits sum.splits option.splits)

text \<open>
  C9. The getter of a number property, in every configuration, in every class, on every host
  and in every state, never returns 0 and never returns \<^verbatim>\<open>NaN\<close>: what it returns is \<^verbatim>\<open>null\<close> or
  a number that is neither. (It returns nothing, raising, only when the property has a
  \<^verbatim>\<open>proxyTarget\<close> and \<^verbatim>\<open>this[proxyTarget]\<close> is \<^verbatim>\<open>undefined\<close> or the read of its property
  raises, or when it reflects and the class has a property named \<^verbatim>\<open>getAttribute\<close> among its
  configs.) In particular, after
  \<^verbatim>\<open>set(0)\<close> on a non-reflecting number property without \<^verbatim>\<open>defaultValue\<close>, \<open>get()\<close> returns
  \<^verbatim>\<open>null\<close>, not 0: the getter returns \<^verbatim>\<open>null\<close> on the element as the write leaves it, in every
  class; and the statements \<^verbatim>\<open>el.x = 0; el.x\<close> give \<^verbatim>\<open>null\<close>, unless the class has a property
  named like the hook, where the write raises as every write to a non-reflecting property
  does there.
\<close>

theorem number_getter_null_or_nonzero:
  assumes "attributeType d = Some ''number''"
  shows "(case getter h proto d s of
            Inl e \<Rightarrow>
              (truthy_name (proxyTarget d)
               \<and> (case props s (property_key (proxyTarget d)) of
                     None \<Rightarrow> e = TypeError
                   | Some obj \<Rightarrow> get_prop obj (property_key (idlName d)) = Inl e))
              \<or> (\<not> truthy_name (proxyTarget d) \<and> truthy_name (contentName d)
                  \<and> \<not> reaches proto ''getAttribute'' \<and> e = TypeError)
          | Inr r \<Rightarrow> r = Null \<or> (\<exists>n. r = JNum n \<and> n \<noteq> NaN \<and> (\<forall>k. n \<noteq> Dec 0 k)))
         \<and> (\<not> truthy_name (proxyTarget d) \<and> \<not> truthy_name (contentName d) \<and> \<not> readonly d
              \<and> defaultValue d = Undefined
            \<longrightarrow> getter browser proto d
                  (state_after (setter browser proto d (JNum (Dec 0 0)) s)) = Inr Null
                \<and> set_then_get browser proto d (JNum (Dec 0 0)) s =
                    (if reaches proto ''attributeChangedCallback'' then Inr Null
                     else Inl TypeError))"
proof -
  from assms have g: "getter h proto d = getter_number h proto d" by (simp add: getter_def)
  have 1: "(case getter h proto d s of
            Inl e \<Rightarrow>
              (truthy_name (proxyTarget d)
               \<and> (case props s (property_key (proxyTarget d)) of
                     None \<Rightarrow> e = TypeError
                   | Some obj \<Rightarrow> get_prop obj (property_key (idlName d)) = Inl e))
              \<or> (\<not> truthy_name (proxyTarget d) \<and> truthy_name (contentName d)
                  \<and> \<not> reaches proto ''getAttribute'' \<and> e = TypeError)
          | Inr r \<Rightarrow> r = Null \<or> (\<exists>n. r = JNum n \<and> n \<noteq> NaN \<and> (\<forall>k. n \<noteq> Dec 0 k)))"
  proof (cases "getter_number h proto d s")
    case (Inl e)
    with getter_number_error [OF Inl] g show ?thesis by simp
  next
    case (Inr r)
    from getter_number_result [OF Inr] truthy_num_nonzero
    have "r = Null \<or> (\<exists>n. r = JNum n \<and> n \<noteq> NaN \<and> (\<forall>k. n \<noteq> Dec 0 k))"
      by blast
    with Inr g show ?thesis by simp
  qed
  have 2: "getter browser proto d
               (state_after (setter browser proto d (JNum (Dec 0 0)) s)) = Inr Null
           \<and> set_then_get browser proto d (JNum (Dec 0 0)) s =
               (if reaches proto ''attributeChangedCallback'' then Inr Null else Inl TypeError)"
    if "\<not> truthy_name (proxyTarget d)" "\<not> truthy_name (contentName d)" "\<not> readonly d"
      "defaultValue d = Undefined"
    using that assms
    by (cases "reaches proto ''attributeChangedCallback''")
      (simp_all add: set_then_get_def accessor_defs js_get_def parseFloat_zero
        parseFloat_Undefined js_or_def Let_def)
  from 1 2 show ?thesis by blast
qed

theorem number_getter_null_or_nonzero_witness:
  "attributeType numberX = Some ''number''
   \<and> getter browser (prototype_of numberX) numberX webComponent = Inr Null
   \<and> getter browser (prototype_of numberX) numberX
        (state_after (setter browser (prototype_of numberX) numberX (JNum (Dec 0 0))
           webComponent)) = Inr Null
   \<and> set_then_get browser (prototype_of numberX) numberX (JNum (Dec 0 0)) webComponent =
       Inr Null"
proof -
  have t: "attributeType numberX = Some ''number''" by (simp add: example_defs)
  have u: "\<not> truthy_name (proxyTarget numberX) \<and> \<not> truthy_name (contentName numberX)
           \<and> \<not> readonly numberX \<and> defaultValue numberX = Undefined"
    by (simp add: example_defs truthy_name_def)
  have g: "getter browser (prototype_of numberX) numberX webComponent = Inr Null"
    by (simp add: accessor_defs example_defs truthy_name_def js_get_def parseFloat_Undefined
        js_or_def)
  have r: "reaches (prototype_of numberX) ''attributeChangedCallback''"
    by (simp add: example_defs reaches_def)
  show ?thesis
    using t u g r
      number_getter_null_or_nonzero
        [where d = numberX and h = browser and proto = "prototype_of numberX"
            and s = webComponent]
    by simp
qed

section \<open>Falsy values in a non-reflecting untyped property\<close>

text \<open>
  C10 says that an untyped non-reflecting property with a \<^verbatim>\<open>defaultValue\<close> reads as the
  \<^verbatim>\<open>defaultValue\<close> whenever the stored value is falsy. The getter is
  \<^verbatim>\<open>this.#idlAttributes.get(idlAttributeName) || defaultValue || (... ? '' : null)\<close>, and a
  \<^verbatim>\<open>defaultValue\<close> that is itself falsy is passed over: with \<^verbatim>\<open>defaultValue: 0\<close>, after
  \<^verbatim>\<open>set('')\<close> the getter returns \<^verbatim>\<open>null\<close>.
\<close>

theorem untyped_falsy_default_counterexample:
  "set_then_get browser (prototype_of (attributeX\<lparr>defaultValue := JNum (Dec 0 0)\<rparr>))
     (attributeX\<lparr>defaultValue := JNum (Dec 0 0)\<rparr>) (JStr []) webComponent = Inr Null
   \<and> defaultValue (attributeX\<lparr>defaultValue := JNum (Dec 0 0)\<rparr>) = JNum (Dec 0 0)"
  by (simp add: set_then_get_def accessor_defs example_defs truthy_name_def reaches_def
      js_get_def js_or_def)

text \<open>
  C10, as the code has it. For every untyped non-reflecting property with a truthy
  \<^verbatim>\<open>defaultValue\<close>, the getter returns the \<^verbatim>\<open>defaultValue\<close> whenever the stored value is falsy
  (empty string, 0, false, null, or never set); after \<^verbatim>\<open>set('')\<close>, \<open>get()\<close> returns the
  \<^verbatim>\<open>defaultValue\<close> and not the empty string that was stored: the getter returns it on the
  element as the write leaves it, in every class; and the statements \<^verbatim>\<open>el.x = ''; el.x\<close> give
  it, unless the class has a property named like the hook, where the write raises as every
  write to a non-reflecting property does there.
\<close>

theorem untyped_falsy_store_gives_default:
  assumes "attributeType d \<noteq> Some ''boolean''" and "attributeType d \<noteq> Some ''number''"
    and "\<not> truthy_name (proxyTarget d)" and "\<not> truthy_name (contentName d)"
    and "truthy (defaultValue d)"
  shows "(\<not> truthy (js_get (idlAttributes s) (idlName d)) \<longrightarrow>
            getter h proto d s = Inr (defaultValue d))
         \<and> (\<not> readonly d \<longrightarrow>
              getter h proto d (state_after (setter h proto d (JStr []) s)) =
                Inr (defaultValue d)
              \<and> set_then_get h proto d (JStr []) s =
                  (if reaches proto ''attributeChangedCallback'' then Inr (defaultValue d)
                   else Inl TypeError))"
  using assms
  by (cases "reaches proto ''attributeChangedCallback''")
    (simp_all add: set_then_get_def accessor_defs js_get_def js_or_def Let_def)

theorem untyped_falsy_store_gives_default_witness:
  "truthy (defaultValue (attributeX\<lparr>defaultValue := JStr ''abc''\<rparr>))
   \<and> getter browser (prototype_of (attributeX\<lparr>defaultValue := JStr ''abc''\<rparr>))
        (attributeX\<lparr>defaultValue := JStr ''abc''\<rparr>) webComponent = Inr (JStr ''abc'')
   \<and> getter browser (prototype_of (attributeX\<lparr>defaultValue := JStr ''abc''\<rparr>))
        (attributeX\<lparr>defaultValue := JStr ''abc''\<rparr>)
        (state_after
           (setter browser (prototype_of (attributeX\<lparr>defaultValue := JStr ''abc''\<rparr>))
              (attributeX\<lparr>defaultValue := JStr ''abc''\<rparr>) (JStr []) webComponent)) =
       Inr (JStr ''abc'')
   \<and> set_then_get browser (prototype_of (attributeX\<lparr>defaultValue := JStr ''abc''\<rparr>))
        (attributeX\<lparr>defaultValue := JStr ''abc''\<rparr>) (JStr []) webComponent =
       Inr (JStr ''abc'')"
  using untyped_falsy_store_gives_default
    [where d = "attributeX\<lparr>defaultValue := JStr ''abc''\<rparr>" and s = webComponent
       and h = browser
       and proto = "prototype_of (attributeX\<lparr>defaultValue := JStr ''abc''\<rparr>)"]
  by (simp add: example_defs truthy_name_def js_get_def reaches_def)

end
